theory Spec2Isabelle
  imports Main "HOL-Library.Signed_Division"
begin

section \<open>The 3D residual network of \<open>adrd/nn/resnet3d.py\<close>\<close>

text \<open>
  The file assembles a video ResNet from layer primitives of an external tensor
  framework. The embedding keeps what the file itself decides: which layers are built,
  with which hyper-parameters, in which order they are applied, how parameters are
  initialised, and which Python exceptions the assembling code raises. Weight tensors
  are random floating-point data; a parameter is therefore represented by the
  initialiser that last filled it.
\<close>

subsection \<open>Exceptions\<close>

datatype error =
    ZeroDivisionError
  | AttributeError
  | IndexError
  | TypeError
  | ValueError
  | RuntimeError

subsection \<open>Layer primitives of the framework\<close>

text \<open>
  How a parameter tensor was last filled: the framework's own \<open>reset_parameters\<close>,
  \<open>kaiming_normal_(mode='fan_out', nonlinearity='relu')\<close>, \<open>normal_(0, 0.01)\<close> or
  \<open>constant_(c)\<close>.
\<close>

datatype fill =
    Default_reset
  | Kaiming_normal_fan_out_relu
  | Normal_0_001
  | Constant int

text \<open>\<open>nn.Conv3d\<close>: integer arguments are stored as triples (\<open>_triple\<close>).\<close>

definition triple :: "int \<Rightarrow> int \<times> int \<times> int" where
  "triple s = (s, s, s)"

record conv3d =
  in_channels :: int
  out_channels :: int
  kernel_size :: "int \<times> int \<times> int"
  conv_stride :: "int \<times> int \<times> int"
  conv_padding :: "int \<times> int \<times> int"
  conv_weight :: fill
  conv_bias :: "fill option"

text \<open>\<open>nn.BatchNorm3d(num_features)\<close>: affine, scale initialised to ones, shift to zeros.\<close>

record batchnorm3d =
  num_features :: int
  bn_weight :: fill
  bn_bias :: fill

text \<open>\<open>nn.Linear\<close> with its default bias.\<close>

record linear =
  in_features :: int
  out_features :: int
  lin_weight :: fill
  lin_bias :: fill

text \<open>
  The module tree. A block keeps its sub-modules under the attribute names of the source;
  \<open>downsample\<close> is \<open>None\<close> or a module; \<open>ReLU\<close> carries its \<open>inplace\<close> flag.
\<close>

datatype module =
    Conv3d conv3d
  | BatchNorm3d batchnorm3d
  | ReLU bool
  | AdaptiveAvgPool3d "int \<times> int \<times> int"
  | Linear linear
  | Sequential "module list"
  | BasicBlock (conv1: module) (conv2: module) (relu: module)
      (self_downsample: "module option") (self_stride: int)
  | Bottleneck (conv1: module) (conv2: module) (conv3: module) (relu: module)
      (self_downsample: "module option") (self_stride: int)
  | VideoResNet (self_inplanes: int) (self_stem: module) (layer1: module) (layer2: module)
      (layer3: module) (layer4: module) (avgpool: module)

definition nn_Conv3d ::
  "int \<Rightarrow> int \<Rightarrow> int \<times> int \<times> int \<Rightarrow> int \<times> int \<times> int \<Rightarrow> int \<times> int \<times> int \<Rightarrow> bool \<Rightarrow> module" where
  "nn_Conv3d cin cout k s p b =
     Conv3d \<lparr>in_channels = cin, out_channels = cout, kernel_size = k, conv_stride = s,
       conv_padding = p, conv_weight = Default_reset,
       conv_bias = (if b then Some Default_reset else None)\<rparr>"

definition nn_BatchNorm3d :: "int \<Rightarrow> module" where
  "nn_BatchNorm3d n = BatchNorm3d \<lparr>num_features = n, bn_weight = Constant 1, bn_bias = Constant 0\<rparr>"

subsection \<open>Conv3DSimple\<close>

text \<open>
  The convolution builders passed as \<open>conv_builder\<close>; this file defines one. Its
  constructor ignores \<open>midplanes\<close>; \<open>stride\<close> and \<open>padding\<close> default to 1.
\<close>

datatype conv_builder = Conv3DSimple

fun conv_builder_init :: "conv_builder \<Rightarrow> int \<Rightarrow> int \<Rightarrow> int \<Rightarrow> int \<Rightarrow> int \<Rightarrow> module" where
  "conv_builder_init Conv3DSimple in_planes out_planes midplanes stride padding =
     nn_Conv3d in_planes out_planes (3, 3, 3) (triple stride) (triple padding) False"

fun get_downsample_stride :: "conv_builder \<Rightarrow> int \<Rightarrow> int \<times> int \<times> int" where
  "get_downsample_stride Conv3DSimple stride = (stride, stride, stride)"

subsection \<open>Residual blocks\<close>

text \<open>
  \<open>midplanes = (inplanes * planes * 3 * 3 * 3) // (inplanes * 3 * 3 + 3 * planes)\<close>.
  Python's \<open>//\<close> is floor division (as \<open>div\<close> on \<open>int\<close>) and raises on a zero divisor.
\<close>

definition py_floordiv :: "int \<Rightarrow> int \<Rightarrow> error + int" where
  "py_floordiv a b = (if b = 0 then Inl ZeroDivisionError else Inr (a div b))"

definition midplanes_formula :: "int \<Rightarrow> int \<Rightarrow> error + int" where
  "midplanes_formula inplanes planes =
     py_floordiv (inplanes * planes * 3 * 3 * 3) (inplanes * 3 * 3 + 3 * planes)"

datatype block = BasicBlock_cls | Bottleneck_cls

fun expansion :: "block \<Rightarrow> int" where
  "expansion BasicBlock_cls = 1"
| "expansion Bottleneck_cls = 4"

definition BasicBlock_init ::
  "int \<Rightarrow> int \<Rightarrow> conv_builder \<Rightarrow> int \<Rightarrow> module option \<Rightarrow> error + module" where
  "BasicBlock_init inplanes planes cb stride downsample =
     (case midplanes_formula inplanes planes of
        Inl e \<Rightarrow> Inl e
      | Inr midplanes \<Rightarrow>
          Inr (BasicBlock
            (Sequential [conv_builder_init cb inplanes planes midplanes stride 1,
                         nn_BatchNorm3d planes,
                         ReLU True])
            (Sequential [conv_builder_init cb planes planes midplanes 1 1,
                         nn_BatchNorm3d planes])
            (ReLU True)
            downsample
            stride))"

definition Bottleneck_init ::
  "int \<Rightarrow> int \<Rightarrow> conv_builder \<Rightarrow> int \<Rightarrow> module option \<Rightarrow> error + module" where
  "Bottleneck_init inplanes planes cb stride downsample =
     (case midplanes_formula inplanes planes of
        Inl e \<Rightarrow> Inl e
      | Inr midplanes \<Rightarrow>
          Inr (Bottleneck
            (Sequential [nn_Conv3d inplanes planes (triple 1) (triple 1) (triple 0) False,
                         nn_BatchNorm3d planes,
                         ReLU True])
            (Sequential [conv_builder_init cb planes planes midplanes stride 1,
                         nn_BatchNorm3d planes,
                         ReLU True])
            (Sequential [nn_Conv3d planes (planes * expansion Bottleneck_cls)
                           (triple 1) (triple 1) (triple 0) False,
                         nn_BatchNorm3d (planes * expansion Bottleneck_cls)])
            (ReLU True)
            downsample
            stride))"

fun block_init ::
  "block \<Rightarrow> int \<Rightarrow> int \<Rightarrow> conv_builder \<Rightarrow> int \<Rightarrow> module option \<Rightarrow> error + module" where
  "block_init BasicBlock_cls = BasicBlock_init"
| "block_init Bottleneck_cls = Bottleneck_init"

subsection \<open>Stem\<close>

datatype stem_cls = BasicStem

fun stem_init :: "stem_cls \<Rightarrow> module" where
  "stem_init BasicStem =
     Sequential [nn_Conv3d 1 64 (7, 7, 7) (2, 2, 2) (3, 3, 3) False,
                 nn_BatchNorm3d 64,
                 ReLU True]"

subsection \<open>Sequencing of fallible steps\<close>

definition bind_result :: "error + 'a \<Rightarrow> ('a \<Rightarrow> error + 'b) \<Rightarrow> error + 'b" where
  "bind_result r f = (case r of Inl e \<Rightarrow> Inl e | Inr v \<Rightarrow> f v)"

text \<open>The results of steps run one after the other: the first exception, or all values.\<close>

fun sequence_results :: "(error + 'a) list \<Rightarrow> error + 'a list" where
  "sequence_results [] = Inr []"
| "sequence_results (r # rs) =
     bind_result r (\<lambda>v. bind_result (sequence_results rs) (\<lambda>vs. Inr (v # vs)))"

text \<open>\<open>xs[i]\<close> for a literal index \<open>i \<ge> 0\<close>.\<close>

definition py_index :: "'a list \<Rightarrow> nat \<Rightarrow> error + 'a" where
  "py_index xs i = (if i < length xs then Inr (xs ! i) else Inl IndexError)"

subsection \<open>VideoResNet: building a stage\<close>

text \<open>
  The loop \<open>for i in range(1, blocks): layers.append(block(self.inplanes, planes, conv_builder))\<close>
  runs \<open>max 0 (blocks - 1)\<close> times; the block's \<open>stride\<close> and \<open>downsample\<close> take their
  defaults 1 and \<open>None\<close>.
\<close>

fun make_layer_loop :: "nat \<Rightarrow> block \<Rightarrow> int \<Rightarrow> int \<Rightarrow> conv_builder \<Rightarrow> error + module list" where
  "make_layer_loop 0 blk inplanes planes cb = Inr []"
| "make_layer_loop (Suc n) blk inplanes planes cb =
     bind_result (block_init blk inplanes planes cb 1 None) (\<lambda>b.
     bind_result (make_layer_loop n blk inplanes planes cb) (\<lambda>bs.
     Inr (b # bs)))"

text \<open>
  \<open>_make_layer\<close> reads and writes \<open>self.inplanes\<close>: the model takes the running count and
  returns the stage together with the updated count.
\<close>

definition make_layer ::
  "int \<Rightarrow> block \<Rightarrow> conv_builder \<Rightarrow> int \<Rightarrow> int \<Rightarrow> int \<Rightarrow> error + module \<times> int" where
  "make_layer inplanes blk cb planes blocks stride =
     (let downsample =
        (if stride \<noteq> 1 \<or> inplanes \<noteq> planes * expansion blk then
           (let ds_stride = get_downsample_stride cb stride in
            Some (Sequential
              [nn_Conv3d inplanes (planes * expansion blk) (triple 1) ds_stride (triple 0) False,
               nn_BatchNorm3d (planes * expansion blk)]))
         else None)
      in
      bind_result (block_init blk inplanes planes cb stride downsample) (\<lambda>first.
      let inplanes' = planes * expansion blk in
      bind_result (make_layer_loop (nat (blocks - 1)) blk inplanes' planes cb) (\<lambda>rest.
      Inr (Sequential (first # rest), inplanes'))))"

subsection \<open>VideoResNet: weight initialisation\<close>

text \<open>
  \<open>_initialize_weights\<close> visits every module of the tree; containers match none of the
  \<open>isinstance\<close> tests and are passed through.
\<close>

fun initialize_weights :: "module \<Rightarrow> module" where
  "initialize_weights (Conv3d c) =
     Conv3d (c\<lparr>conv_weight := Kaiming_normal_fan_out_relu,
              conv_bias := (case conv_bias c of None \<Rightarrow> None | Some _ \<Rightarrow> Some (Constant 0))\<rparr>)"
| "initialize_weights (BatchNorm3d b) =
     BatchNorm3d (b\<lparr>bn_weight := Constant 1, bn_bias := Constant 0\<rparr>)"
| "initialize_weights (Linear l) =
     Linear (l\<lparr>lin_weight := Normal_0_001, lin_bias := Constant 0\<rparr>)"
| "initialize_weights (ReLU i) = ReLU i"
| "initialize_weights (AdaptiveAvgPool3d sz) = AdaptiveAvgPool3d sz"
| "initialize_weights (Sequential ms) = Sequential (map initialize_weights ms)"
| "initialize_weights (BasicBlock c1 c2 r ds s) =
     BasicBlock (initialize_weights c1) (initialize_weights c2) (initialize_weights r)
       (case ds of None \<Rightarrow> None | Some d \<Rightarrow> Some (initialize_weights d)) s"
| "initialize_weights (Bottleneck c1 c2 c3 r ds s) =
     Bottleneck (initialize_weights c1) (initialize_weights c2) (initialize_weights c3)
       (initialize_weights r)
       (case ds of None \<Rightarrow> None | Some d \<Rightarrow> Some (initialize_weights d)) s"
| "initialize_weights (VideoResNet i st l1 l2 l3 l4 ap) =
     VideoResNet i (initialize_weights st) (initialize_weights l1) (initialize_weights l2)
       (initialize_weights l3) (initialize_weights l4) (initialize_weights ap)"

text \<open>\<open>self.modules()\<close>: the module itself, then its registered children, depth first.\<close>

fun modules :: "module \<Rightarrow> module list" where
  "modules (Sequential ms) = Sequential ms # concat (map modules ms)"
| "modules (BasicBlock c1 c2 r ds s) =
     BasicBlock c1 c2 r ds s # modules c1 @ modules c2 @ modules r @
       (case ds of None \<Rightarrow> [] | Some d \<Rightarrow> modules d)"
| "modules (Bottleneck c1 c2 c3 r ds s) =
     Bottleneck c1 c2 c3 r ds s # modules c1 @ modules c2 @ modules c3 @ modules r @
       (case ds of None \<Rightarrow> [] | Some d \<Rightarrow> modules d)"
| "modules (VideoResNet i st l1 l2 l3 l4 ap) =
     VideoResNet i st l1 l2 l3 l4 ap # modules st @ modules l1 @ modules l2 @ modules l3 @
       modules l4 @ modules ap"
| "modules m = [m]"

subsection \<open>VideoResNet: the zero\_init\_residual loop\<close>

text \<open>
  Attribute lookup on a module finds its registered sub-modules by name; a
  \<open>Sequential\<close> names its children by their index. A \<open>downsample\<close> that is \<open>None\<close> is
  not a sub-module.
\<close>

definition digit_char :: "nat \<Rightarrow> char" where
  "digit_char d = char_of (48 + d)"

fun string_of_nat :: "nat \<Rightarrow> string" where
  "string_of_nat n =
     (if n < 10 then [digit_char n] else string_of_nat (n div 10) @ [digit_char (n mod 10)])"

declare string_of_nat.simps [simp del]

fun named_children :: "module \<Rightarrow> (string \<times> module) list" where
  "named_children (Sequential ms) = zip (map string_of_nat [0..<length ms]) ms"
| "named_children (BasicBlock c1 c2 r ds s) =
     [(''conv1'', c1), (''conv2'', c2), (''relu'', r)] @
       (case ds of None \<Rightarrow> [] | Some d \<Rightarrow> [(''downsample'', d)])"
| "named_children (Bottleneck c1 c2 c3 r ds s) =
     [(''conv1'', c1), (''conv2'', c2), (''conv3'', c3), (''relu'', r)] @
       (case ds of None \<Rightarrow> [] | Some d \<Rightarrow> [(''downsample'', d)])"
| "named_children (VideoResNet i st l1 l2 l3 l4 ap) =
     [(''stem'', st), (''layer1'', l1), (''layer2'', l2), (''layer3'', l3), (''layer4'', l4),
      (''avgpool'', ap)]"
| "named_children m = []"

definition getattr_module :: "module \<Rightarrow> string \<Rightarrow> error + module" where
  "getattr_module m name =
     (case map_of (named_children m) name of None \<Rightarrow> Inl AttributeError | Some c \<Rightarrow> Inr c)"

text \<open>\<open>nn.init.constant_(x.weight, v)\<close> for a module \<open>x\<close>.\<close>

fun constant_weight :: "module \<Rightarrow> int \<Rightarrow> error + module" where
  "constant_weight (Conv3d c) v = Inr (Conv3d (c\<lparr>conv_weight := Constant v\<rparr>))"
| "constant_weight (BatchNorm3d b) v = Inr (BatchNorm3d (b\<lparr>bn_weight := Constant v\<rparr>))"
| "constant_weight (Linear l) v = Inr (Linear (l\<lparr>lin_weight := Constant v\<rparr>))"
| "constant_weight m v = Inl AttributeError"

text \<open>
  The sub-module is changed in place in the source; in the model the parent is rebuilt
  around the changed child.
\<close>

fun with_child :: "module \<Rightarrow> string \<Rightarrow> module \<Rightarrow> module" where
  "with_child (Bottleneck c1 c2 c3 r ds s) name c =
     (if name = ''conv1'' then Bottleneck c c2 c3 r ds s
      else if name = ''conv2'' then Bottleneck c1 c c3 r ds s
      else if name = ''conv3'' then Bottleneck c1 c2 c r ds s
      else if name = ''relu'' then Bottleneck c1 c2 c3 c ds s
      else if name = ''downsample'' \<and> ds \<noteq> None then Bottleneck c1 c2 c3 r (Some c) s
      else Bottleneck c1 c2 c3 r ds s)"
| "with_child m name c = m"

text \<open>
  \<open>for m in self.modules(): if isinstance(m, Bottleneck): nn.init.constant_(m.bn3.weight, 0)\<close>.
  A module is visited before its children; the first exception ends the loop.
\<close>

fun zero_init_residual_loop :: "module \<Rightarrow> error + module" where
  "zero_init_residual_loop (Sequential ms) =
     bind_result (sequence_results (map zero_init_residual_loop ms)) (\<lambda>ms'. Inr (Sequential ms'))"
| "zero_init_residual_loop (BasicBlock c1 c2 r ds s) =
     bind_result (zero_init_residual_loop c1) (\<lambda>c1'.
     bind_result (zero_init_residual_loop c2) (\<lambda>c2'.
     bind_result (zero_init_residual_loop r) (\<lambda>r'.
     bind_result (case ds of None \<Rightarrow> Inr None
                  | Some d \<Rightarrow> bind_result (zero_init_residual_loop d) (\<lambda>d'. Inr (Some d')))
       (\<lambda>ds'. Inr (BasicBlock c1' c2' r' ds' s)))))"
| "zero_init_residual_loop (Bottleneck c1 c2 c3 r ds s) =
     bind_result (getattr_module (Bottleneck c1 c2 c3 r ds s) ''bn3'') (\<lambda>bn3.
     bind_result (constant_weight bn3 0) (\<lambda>bn3'.
     bind_result (zero_init_residual_loop c1) (\<lambda>c1'.
     bind_result (zero_init_residual_loop c2) (\<lambda>c2'.
     bind_result (zero_init_residual_loop c3) (\<lambda>c3'.
     bind_result (zero_init_residual_loop r) (\<lambda>r'.
     bind_result (case ds of None \<Rightarrow> Inr None
                  | Some d \<Rightarrow> bind_result (zero_init_residual_loop d) (\<lambda>d'. Inr (Some d')))
       (\<lambda>ds'. Inr (with_child (Bottleneck c1' c2' c3' r' ds' s) ''bn3'' bn3'))))))))"
| "zero_init_residual_loop (VideoResNet i st l1 l2 l3 l4 ap) =
     bind_result (zero_init_residual_loop st) (\<lambda>st'.
     bind_result (zero_init_residual_loop l1) (\<lambda>l1'.
     bind_result (zero_init_residual_loop l2) (\<lambda>l2'.
     bind_result (zero_init_residual_loop l3) (\<lambda>l3'.
     bind_result (zero_init_residual_loop l4) (\<lambda>l4'.
     bind_result (zero_init_residual_loop ap) (\<lambda>ap'.
     Inr (VideoResNet i st' l1' l2' l3' l4' ap')))))))"
| "zero_init_residual_loop m = Inr m"

subsection \<open>VideoResNet: the constructor\<close>

definition VideoResNet_init ::
  "block \<Rightarrow> conv_builder list \<Rightarrow> int list \<Rightarrow> stem_cls \<Rightarrow> int \<Rightarrow> bool \<Rightarrow> error + module" where
  "VideoResNet_init blk conv_makers layers stem num_classes zero_init_residual =
     (let inplanes0 = 64;
          stem_m = stem_init stem
      in
      bind_result (py_index conv_makers 0) (\<lambda>cm0.
      bind_result (py_index layers 0) (\<lambda>n0.
      bind_result (make_layer inplanes0 blk cm0 64 n0 1) (\<lambda>(l1, inplanes1).
      bind_result (py_index conv_makers 1) (\<lambda>cm1.
      bind_result (py_index layers 1) (\<lambda>n1.
      bind_result (make_layer inplanes1 blk cm1 128 n1 2) (\<lambda>(l2, inplanes2).
      bind_result (py_index conv_makers 2) (\<lambda>cm2.
      bind_result (py_index layers 2) (\<lambda>n2.
      bind_result (make_layer inplanes2 blk cm2 192 n2 2) (\<lambda>(l3, inplanes3).
      bind_result (py_index conv_makers 3) (\<lambda>cm3.
      bind_result (py_index layers 3) (\<lambda>n3.
      bind_result (make_layer inplanes3 blk cm3 256 n3 2) (\<lambda>(l4, inplanes4).
      let ap = AdaptiveAvgPool3d (1, 1, 1);
          net = initialize_weights (VideoResNet inplanes4 stem_m l1 l2 l3 l4 ap)
      in
      if zero_init_residual then zero_init_residual_loop net else Inr net)))))))))))))"

subsection \<open>The entry points\<close>

text \<open>
  The keyword dictionary \<open>**kwargs\<close>: one optional entry for each parameter name of
  \<open>VideoResNet.__init__\<close>, and the names of all other keys.
\<close>

record kwargs =
  kw_block :: "block option"
  kw_conv_makers :: "conv_builder list option"
  kw_layers :: "int list option"
  kw_stem :: "stem_cls option"
  kw_num_classes :: "int option"
  kw_zero_init_residual :: "bool option"
  kw_others :: "string list"

definition no_kwargs :: kwargs where
  "no_kwargs = \<lparr>kw_block = None, kw_conv_makers = None, kw_layers = None, kw_stem = None,
     kw_num_classes = None, kw_zero_init_residual = None, kw_others = []\<rparr>"

text \<open>
  \<open>VideoResNet(**kwargs)\<close>: an unknown key or a missing required parameter is a
  \<open>TypeError\<close>; \<open>num_classes\<close> defaults to 2 and \<open>zero_init_residual\<close> to \<open>False\<close>.
\<close>

definition VideoResNet_call :: "kwargs \<Rightarrow> error + module" where
  "VideoResNet_call kwargs =
     (if kw_others kwargs \<noteq> [] then Inl TypeError
      else
        (case (kw_block kwargs, kw_conv_makers kwargs, kw_layers kwargs, kw_stem kwargs) of
           (Some blk, Some conv_makers, Some layers, Some stem) \<Rightarrow>
             VideoResNet_init blk conv_makers layers stem
               (case kw_num_classes kwargs of None \<Rightarrow> 2 | Some n \<Rightarrow> n)
               (case kw_zero_init_residual kwargs of None \<Rightarrow> False | Some z \<Rightarrow> z)
         | _ \<Rightarrow> Inl TypeError))"

definition video_resnet :: "string \<Rightarrow> bool \<Rightarrow> bool \<Rightarrow> kwargs \<Rightarrow> error + module" where
  "video_resnet arch pretrained progress kwargs =
     (let model = VideoResNet_call kwargs in model)"

text \<open>
  \<open>r3d_18\<close> passes \<open>block\<close>, \<open>conv_makers\<close>, \<open>layers\<close> and \<open>stem\<close> by keyword next to
  \<open>**kwargs\<close>; a key of \<open>kwargs\<close> that repeats one of them, or names a positional
  parameter of \<open>_video_resnet\<close>, is a \<open>TypeError\<close> at the call.
\<close>

definition r3d_18 :: "bool \<Rightarrow> bool \<Rightarrow> kwargs \<Rightarrow> error + module" where
  "r3d_18 pretrained progress kwargs =
     (if kw_block kwargs \<noteq> None \<or> kw_conv_makers kwargs \<noteq> None \<or> kw_layers kwargs \<noteq> None
         \<or> kw_stem kwargs \<noteq> None
         \<or> ''arch'' \<in> set (kw_others kwargs) \<or> ''pretrained'' \<in> set (kw_others kwargs)
         \<or> ''progress'' \<in> set (kw_others kwargs)
      then Inl TypeError
      else video_resnet ''r3d_18'' pretrained progress
             (kwargs\<lparr>kw_block := Some BasicBlock_cls,
                     kw_conv_makers := Some (replicate 4 Conv3DSimple),
                     kw_layers := Some [2, 2, 2, 2],
                     kw_stem := Some BasicStem\<rparr>))"

subsection \<open>Forward passes\<close>

text \<open>
  The forward methods only compose the framework's tensor operations. They are modelled
  over an arbitrary tensor type \<open>'t\<close> and an arbitrary interpretation of these
  operations; \<open>iadd_op out residual\<close> is \<open>out += residual\<close>.
\<close>

record 't tensor_ops =
  conv3d_op :: "conv3d \<Rightarrow> 't \<Rightarrow> 't"
  batch_norm_op :: "batchnorm3d \<Rightarrow> 't \<Rightarrow> 't"
  relu_op :: "'t \<Rightarrow> 't"
  adaptive_avg_pool3d_op :: "int \<times> int \<times> int \<Rightarrow> 't \<Rightarrow> 't"
  linear_op :: "linear \<Rightarrow> 't \<Rightarrow> 't"
  iadd_op :: "'t \<Rightarrow> 't \<Rightarrow> 't"
  flatten_op :: "nat \<Rightarrow> 't \<Rightarrow> 't"

fun forward :: "'t tensor_ops \<Rightarrow> module \<Rightarrow> 't \<Rightarrow> 't" where
  "forward ops (Conv3d c) x = conv3d_op ops c x"
| "forward ops (BatchNorm3d b) x = batch_norm_op ops b x"
| "forward ops (ReLU i) x = relu_op ops x"
| "forward ops (AdaptiveAvgPool3d sz) x = adaptive_avg_pool3d_op ops sz x"
| "forward ops (Linear l) x = linear_op ops l x"
| "forward ops (Sequential ms) x = fold (forward ops) ms x"
| "forward ops (BasicBlock c1 c2 r ds s) x =
     (let residual = x;
          out = forward ops c1 x;
          out = forward ops c2 out;
          residual = (case ds of None \<Rightarrow> residual | Some d \<Rightarrow> forward ops d x);
          out = iadd_op ops out residual;
          out = forward ops r out
      in out)"
| "forward ops (Bottleneck c1 c2 c3 r ds s) x =
     (let residual = x;
          out = forward ops c1 x;
          out = forward ops c2 out;
          out = forward ops c3 out;
          residual = (case ds of None \<Rightarrow> residual | Some d \<Rightarrow> forward ops d x);
          out = iadd_op ops out residual;
          out = forward ops r out
      in out)"
| "forward ops (VideoResNet i st l1 l2 l3 l4 ap) x =
     (let x = forward ops st x;
          x = forward ops l1 x;
          x = forward ops l2 x;
          x = forward ops l3 x;
          x = forward ops l4 x;
          x = forward ops ap x;
          x = flatten_op ops 1 x
      in x)"

subsection \<open>Tensor shapes\<close>

text \<open>
  One interpretation of the tensor operations: a tensor is its shape, or the exception
  raised on the way, and each operation follows the shape rules the framework documents
  (dilation 1, groups 1). \<open>training\<close> is the mode flag of the modules: \<open>True\<close> after
  construction, \<open>False\<close> after \<open>eval()\<close>; in training mode batch normalisation rejects
  an input with a single value per channel.
\<close>

type_synonym shape = "nat list"

definition conv_extent :: "nat \<Rightarrow> int \<Rightarrow> int \<Rightarrow> int \<Rightarrow> error + nat" where
  "conv_extent d k s p =
     (if k \<le> 0 \<or> s \<le> 0 \<or> p < 0 then Inl RuntimeError
      else if int d + 2 * p < k then Inl RuntimeError
      else Inr (nat ((int d + 2 * p - k) div s + 1)))"

definition conv_extents :: "conv3d \<Rightarrow> nat \<Rightarrow> nat \<Rightarrow> nat \<Rightarrow> error + shape" where
  "conv_extents c d h w =
     (case (kernel_size c, conv_stride c, conv_padding c) of
        ((kd, kh, kw), (sd, sh, sw), (pd, ph, pw)) \<Rightarrow>
          bind_result (conv_extent d kd sd pd) (\<lambda>d'.
          bind_result (conv_extent h kh sh ph) (\<lambda>h'.
          bind_result (conv_extent w kw sw pw) (\<lambda>w'.
          Inr [d', h', w']))))"

fun shape_conv3d :: "conv3d \<Rightarrow> shape \<Rightarrow> error + shape" where
  "shape_conv3d c [n, ch, d, h, w] =
     (if int ch \<noteq> in_channels c \<or> out_channels c < 0 then Inl RuntimeError
      else bind_result (conv_extents c d h w) (\<lambda>e. Inr ([n, nat (out_channels c)] @ e)))"
| "shape_conv3d c [ch, d, h, w] =
     (if int ch \<noteq> in_channels c \<or> out_channels c < 0 then Inl RuntimeError
      else bind_result (conv_extents c d h w) (\<lambda>e. Inr ([nat (out_channels c)] @ e)))"
| "shape_conv3d c sh = Inl RuntimeError"

fun shape_batch_norm :: "bool \<Rightarrow> batchnorm3d \<Rightarrow> shape \<Rightarrow> error + shape" where
  "shape_batch_norm training b [n, ch, d, h, w] =
     (if training \<and> n * d * h * w = 1 then Inl ValueError
      else if int ch \<noteq> num_features b then Inl RuntimeError
      else Inr [n, ch, d, h, w])"
| "shape_batch_norm training b sh = Inl ValueError"

fun shape_adaptive_avg_pool3d :: "int \<times> int \<times> int \<Rightarrow> shape \<Rightarrow> error + shape" where
  "shape_adaptive_avg_pool3d (od, oh, ow) [n, ch, d, h, w] =
     (if ch = 0 \<or> d = 0 \<or> h = 0 \<or> w = 0 \<or> od < 0 \<or> oh < 0 \<or> ow < 0 then Inl RuntimeError
      else Inr [n, ch, nat od, nat oh, nat ow])"
| "shape_adaptive_avg_pool3d (od, oh, ow) [ch, d, h, w] =
     (if d = 0 \<or> h = 0 \<or> w = 0 \<or> od < 0 \<or> oh < 0 \<or> ow < 0 then Inl RuntimeError
      else Inr [ch, nat od, nat oh, nat ow])"
| "shape_adaptive_avg_pool3d sz sh = Inl RuntimeError"

definition shape_linear :: "linear \<Rightarrow> shape \<Rightarrow> error + shape" where
  "shape_linear l sh =
     (if sh = [] \<or> int (last sh) \<noteq> in_features l \<or> out_features l < 0 then Inl RuntimeError
      else Inr (butlast sh @ [nat (out_features l)]))"

text \<open>
  \<open>out += residual\<close> keeps the shape of \<open>out\<close> and needs \<open>residual\<close> to broadcast to it:
  aligned from the last dimension, each extent of \<open>residual\<close> is that of \<open>out\<close> or 1.
\<close>

fun broadcasts_to :: "shape \<Rightarrow> shape \<Rightarrow> bool" where
  "broadcasts_to [] outs = True"
| "broadcasts_to (r # rs) [] = False"
| "broadcasts_to (r # rs) (d # ds) = ((r = d \<or> r = 1) \<and> broadcasts_to rs ds)"

definition shape_iadd :: "shape \<Rightarrow> shape \<Rightarrow> error + shape" where
  "shape_iadd out residual =
     (if broadcasts_to (rev residual) (rev out) then Inr out else Inl RuntimeError)"

definition shape_flatten :: "nat \<Rightarrow> shape \<Rightarrow> error + shape" where
  "shape_flatten start sh =
     (if start < length sh then Inr (take start sh @ [prod_list (drop start sh)])
      else Inl IndexError)"

definition shape_ops :: "bool \<Rightarrow> (error + shape) tensor_ops" where
  "shape_ops training =
     \<lparr>conv3d_op = (\<lambda>c x. bind_result x (shape_conv3d c)),
      batch_norm_op = (\<lambda>b x. bind_result x (shape_batch_norm training b)),
      relu_op = (\<lambda>x. x),
      adaptive_avg_pool3d_op = (\<lambda>sz x. bind_result x (shape_adaptive_avg_pool3d sz)),
      linear_op = (\<lambda>l x. bind_result x (shape_linear l)),
      iadd_op = (\<lambda>out residual. bind_result out (\<lambda>a. bind_result residual (shape_iadd a))),
      flatten_op = (\<lambda>start x. bind_result x (shape_flatten start))\<rparr>"

subsection \<open>The network the specification describes\<close>

text \<open>
  The specification's description of the 18-layer network, written down independently of
  the constructors: a stem, then four stages of two Basic blocks each, with widths 64,
  128, 192, 256 and strides 1, 2, 2, 2; convolutions without bias and initialised by
  Kaiming-normal, normalisation layers with scale 1 and shift 0; a stage's first block
  has a downsample path when its stride is not 1 or its width changes.
\<close>

definition spec_conv ::
  "int \<Rightarrow> int \<Rightarrow> int \<times> int \<times> int \<Rightarrow> int \<times> int \<times> int \<Rightarrow> int \<times> int \<times> int \<Rightarrow> module" where
  "spec_conv cin cout k s p =
     Conv3d \<lparr>in_channels = cin, out_channels = cout, kernel_size = k, conv_stride = s,
       conv_padding = p, conv_weight = Kaiming_normal_fan_out_relu, conv_bias = None\<rparr>"

definition spec_norm :: "int \<Rightarrow> module" where
  "spec_norm n = BatchNorm3d \<lparr>num_features = n, bn_weight = Constant 1, bn_bias = Constant 0\<rparr>"

definition spec_downsample :: "int \<Rightarrow> int \<Rightarrow> int \<Rightarrow> module" where
  "spec_downsample cin cout s =
     Sequential [spec_conv cin cout (1, 1, 1) (s, s, s) (0, 0, 0), spec_norm cout]"

definition spec_basic_block :: "int \<Rightarrow> int \<Rightarrow> int \<Rightarrow> module option \<Rightarrow> module" where
  "spec_basic_block cin cout s ds =
     BasicBlock
       (Sequential [spec_conv cin cout (3, 3, 3) (s, s, s) (1, 1, 1), spec_norm cout, ReLU True])
       (Sequential [spec_conv cout cout (3, 3, 3) (1, 1, 1) (1, 1, 1), spec_norm cout])
       (ReLU True) ds s"

definition spec_stage :: "int \<Rightarrow> int \<Rightarrow> int \<Rightarrow> module" where
  "spec_stage cin planes s =
     Sequential
       [spec_basic_block cin planes s
          (if s \<noteq> 1 \<or> cin \<noteq> planes then Some (spec_downsample cin planes s) else None),
        spec_basic_block planes planes 1 None]"

definition spec_stem :: module where
  "spec_stem = Sequential [spec_conv 1 64 (7, 7, 7) (2, 2, 2) (3, 3, 3), spec_norm 64, ReLU True]"

definition spec_r3d_18 :: module where
  "spec_r3d_18 =
     VideoResNet 256 spec_stem (spec_stage 64 64 1) (spec_stage 64 128 2) (spec_stage 128 192 2)
       (spec_stage 192 256 2) (AdaptiveAvgPool3d (1, 1, 1))"

text \<open>
  The downsample path the specification requires for a stage: present when the
  requested stride is not 1 or the running channel count differs from
  \<open>planes * expansion\<close>, and then a 1x1x1 convolution without bias from the running
  channel count to \<open>planes * expansion\<close>, with the builder's downsample stride,
  followed by a normalisation layer.
\<close>

definition required_downsample ::
  "block \<Rightarrow> conv_builder \<Rightarrow> int \<Rightarrow> int \<Rightarrow> int \<Rightarrow> module option" where
  "required_downsample blk cb inplanes planes stride =
     (if stride \<noteq> 1 \<or> inplanes \<noteq> planes * expansion blk then
        Some (Sequential
          [Conv3d \<lparr>in_channels = inplanes, out_channels = planes * expansion blk,
             kernel_size = (1, 1, 1), conv_stride = get_downsample_stride cb stride,
             conv_padding = (0, 0, 0), conv_weight = Default_reset, conv_bias = None\<rparr>,
           BatchNorm3d \<lparr>num_features = planes * expansion blk, bn_weight = Constant 1,
             bn_bias = Constant 0\<rparr>])
      else None)"

text \<open>
  What the specification says of a built stage: its first block is the block
  constructed from the running channel count with the requested stride and the required
  downsample path; each of the \<open>blocks - 1\<close> remaining ones is the block constructed
  from the width \<open>planes * expansion\<close> with stride 1 and no downsample.
\<close>

definition stage_built ::
  "block \<Rightarrow> conv_builder \<Rightarrow> int \<Rightarrow> int \<Rightarrow> int \<Rightarrow> int \<Rightarrow> module \<Rightarrow> bool" where
  "stage_built blk cb inplanes planes blocks stride layer =
     (case layer of
        Sequential (first # rest) \<Rightarrow>
          block_init blk inplanes planes cb stride
            (required_downsample blk cb inplanes planes stride) = Inr first
          \<and> length rest = nat (blocks - 1)
          \<and> list_all (\<lambda>b. block_init blk (planes * expansion blk) planes cb 1 None = Inr b) rest
      | _ \<Rightarrow> False)"

text \<open>The extent left by a stride-2 convolution of this network: \<open>\<lceil>d / 2\<rceil>\<close>.\<close>

definition halve :: "nat \<Rightarrow> nat" where
  "halve d = (d + 1) div 2"

section \<open>Properties\<close>

subsection \<open>Basic facts\<close>

lemma bind_result_simps [simp]:
  "bind_result (Inl e) f = Inl e"
  "bind_result (Inr v) f = f v"
  by (simp_all add: bind_result_def)

lemma bind_result_eq_Inr:
  "bind_result r f = Inr y \<longleftrightarrow> (\<exists>v. r = Inr v \<and> f v = Inr y)"
  by (cases r) simp_all

subsection \<open>The mid-plane count\<close>

text \<open>
  Claim C5. For channel counts \<open>inplanes\<close>, \<open>planes\<close> that are non-negative and not both
  zero, the mid-plane computation of the block constructors returns
  \<open>(inplanes * planes * 27) // (inplanes * 9 + 3 * planes)\<close>; on these operands floor
  division and truncating division (\<open>sdiv\<close>) agree, and the value is non-negative. The
  computation is a function of its two arguments alone.
\<close>

theorem midplanes_formula_value:
  assumes "0 \<le> inplanes" and "0 \<le> planes" and "0 < inplanes \<or> 0 < planes"
  shows "\<exists>mid. midplanes_formula inplanes planes = Inr mid
           \<and> mid = (inplanes * planes * 27) div (inplanes * 9 + 3 * planes)
           \<and> mid = (inplanes * planes * 27) sdiv (inplanes * 9 + 3 * planes)
           \<and> 0 \<le> mid"
proof -
  let ?a = "inplanes * planes * 27" and ?b = "inplanes * 9 + 3 * planes"
  have b: "0 < ?b" using assms by auto
  have a: "0 \<le> ?a" using assms by simp
  have "midplanes_formula inplanes planes = Inr (?a div ?b)"
    using b by (simp add: midplanes_formula_def py_floordiv_def algebra_simps)
  moreover have "?a sdiv ?b = ?a div ?b"
    using a b by (simp add: signed_divide_int_def sgn_if)
  moreover have "0 \<le> ?a div ?b"
    using a b by (simp add: pos_imp_zdiv_nonneg_iff)
  ultimately show ?thesis by simp
qed

theorem midplanes_formula_value_witness:
  "(0::int) \<le> 64 \<and> (0::int) \<le> 128 \<and> midplanes_formula 64 128 = Inr 230"
  using midplanes_formula_value [of 64 128] by simp

text \<open>
  Claim C10. For non-negative channel counts the divisor \<open>inplanes * 9 + 3 * planes\<close> is
  zero exactly when both counts are zero. If one of them is positive, constructing a
  \<open>BasicBlock\<close> or a \<open>Bottleneck\<close> returns a block; for \<open>inplanes = planes = 0\<close> both
  constructors raise \<open>ZeroDivisionError\<close>.
\<close>

theorem block_init_division_by_zero:
  assumes "0 \<le> inplanes" and "0 \<le> planes"
  shows "(inplanes * 3 * 3 + 3 * planes = 0 \<longleftrightarrow> inplanes = 0 \<and> planes = 0)
       \<and> (0 < inplanes \<or> 0 < planes \<longrightarrow>
            (\<exists>b. BasicBlock_init inplanes planes cb stride ds = Inr b)
          \<and> (\<exists>b. Bottleneck_init inplanes planes cb stride ds = Inr b))
       \<and> BasicBlock_init 0 0 cb stride ds = Inl ZeroDivisionError
       \<and> Bottleneck_init 0 0 cb stride ds = Inl ZeroDivisionError"
  using assms
  by (auto simp add: BasicBlock_init_def Bottleneck_init_def midplanes_formula_def py_floordiv_def)

theorem block_init_division_by_zero_witness:
  "(0::int) \<le> 64 \<and> (0::int) \<le> 128 \<and> ((0::int) < 64 \<or> (0::int) < 128)
     \<and> (\<exists>b. BasicBlock_init 64 128 Conv3DSimple 2 None = Inr b)
     \<and> (\<exists>b. Bottleneck_init 64 128 Conv3DSimple 2 None = Inr b)"
  using block_init_division_by_zero [of 64 128 Conv3DSimple 2 None] by simp

subsection \<open>Blocks and stem\<close>

lemma block_init_fields:
  assumes "block_init blk inplanes planes cb stride ds = Inr b"
  shows "self_downsample b = ds \<and> self_stride b = stride"
  using assms
  by (cases blk) (auto simp add: BasicBlock_init_def Bottleneck_init_def split: sum.splits)

text \<open>
  Claim C4. A constructed \<open>BasicBlock\<close> computes
  \<open>relu(bn(conv(relu(bn(conv(x))))) + residual)\<close>: the first convolution has the given
  stride in all three dimensions, the second has stride 1 and is followed by
  normalisation only; \<open>residual\<close> is \<open>downsample(x)\<close> when a downsample path was given
  and \<open>x\<close> itself otherwise.
\<close>

theorem BasicBlock_forward:
  assumes "BasicBlock_init inplanes planes cb stride ds = Inr b"
  shows "forward ops b x =
     relu_op ops
       (iadd_op ops
          (batch_norm_op ops \<lparr>num_features = planes, bn_weight = Constant 1, bn_bias = Constant 0\<rparr>
            (conv3d_op ops
               \<lparr>in_channels = planes, out_channels = planes, kernel_size = (3, 3, 3),
                 conv_stride = (1, 1, 1), conv_padding = (1, 1, 1),
                 conv_weight = Default_reset, conv_bias = None\<rparr>
               (relu_op ops
                 (batch_norm_op ops
                    \<lparr>num_features = planes, bn_weight = Constant 1, bn_bias = Constant 0\<rparr>
                    (conv3d_op ops
                       \<lparr>in_channels = inplanes, out_channels = planes, kernel_size = (3, 3, 3),
                         conv_stride = (stride, stride, stride), conv_padding = (1, 1, 1),
                         conv_weight = Default_reset, conv_bias = None\<rparr> x)))))
          (case ds of None \<Rightarrow> x | Some d \<Rightarrow> forward ops d x))"
proof -
  obtain mid where "midplanes_formula inplanes planes = Inr mid"
    using assms by (cases "midplanes_formula inplanes planes") (simp_all add: BasicBlock_init_def)
  then have "b = BasicBlock
            (Sequential [conv_builder_init cb inplanes planes mid stride 1,
                         nn_BatchNorm3d planes, ReLU True])
            (Sequential [conv_builder_init cb planes planes mid 1 1, nn_BatchNorm3d planes])
            (ReLU True) ds stride"
    using assms by (simp add: BasicBlock_init_def)
  then show ?thesis
    by (cases cb) (simp add: nn_Conv3d_def nn_BatchNorm3d_def triple_def)
qed

theorem BasicBlock_forward_witness:
  "\<exists>b. BasicBlock_init 64 128 Conv3DSimple 2 None = Inr b
     \<and> forward \<lparr>conv3d_op = (\<lambda>c x. out_channels c + x), batch_norm_op = (\<lambda>b x. 2 * x),
                 relu_op = (\<lambda>x. max 0 x), adaptive_avg_pool3d_op = (\<lambda>s x. x),
                 linear_op = (\<lambda>l x. x), iadd_op = (\<lambda>a b. a + b), flatten_op = (\<lambda>n x. x)\<rparr>
          b (- 1000 :: int) = 0"
proof -
  obtain b where b: "BasicBlock_init 64 128 Conv3DSimple 2 None = Inr b"
    by (simp add: BasicBlock_init_def midplanes_formula_def py_floordiv_def)
  have "forward \<lparr>conv3d_op = (\<lambda>c x. out_channels c + x), batch_norm_op = (\<lambda>b x. 2 * x),
                 relu_op = (\<lambda>x. max 0 x), adaptive_avg_pool3d_op = (\<lambda>s x. x),
                 linear_op = (\<lambda>l x. x), iadd_op = (\<lambda>a b. a + b), flatten_op = (\<lambda>n x. x)\<rparr>
          b (- 1000 :: int) = 0"
    by (subst BasicBlock_forward [OF b]) simp
  with b show ?thesis by blast
qed

text \<open>
  Claim C7. The expansion factor is the constant 1 for \<open>BasicBlock\<close> and 4 for
  \<open>Bottleneck\<close>. The third stage of a constructed \<open>Bottleneck\<close> is a 1x1x1 convolution
  from \<open>planes\<close> to \<open>planes * 4\<close> channels followed by normalisation, with no
  activation; its output goes straight into the residual addition.
\<close>

theorem expansion_and_Bottleneck_conv3:
  assumes "Bottleneck_init inplanes planes cb stride ds = Inr b"
  shows "expansion BasicBlock_cls = 1 \<and> expansion Bottleneck_cls = 4
   \<and> conv3 b =
        Sequential
          [Conv3d \<lparr>in_channels = planes, out_channels = planes * 4, kernel_size = (1, 1, 1),
                   conv_stride = (1, 1, 1), conv_padding = (0, 0, 0),
                   conv_weight = Default_reset, conv_bias = None\<rparr>,
           BatchNorm3d \<lparr>num_features = planes * 4, bn_weight = Constant 1,
                        bn_bias = Constant 0\<rparr>]
   \<and> forward ops (conv3 b) x =
        batch_norm_op ops
          \<lparr>num_features = planes * 4, bn_weight = Constant 1, bn_bias = Constant 0\<rparr>
          (conv3d_op ops
             \<lparr>in_channels = planes, out_channels = planes * 4, kernel_size = (1, 1, 1),
               conv_stride = (1, 1, 1), conv_padding = (0, 0, 0),
               conv_weight = Default_reset, conv_bias = None\<rparr> x)
   \<and> forward ops b x =
        relu_op ops
          (iadd_op ops (forward ops (conv3 b) (forward ops (conv2 b) (forward ops (conv1 b) x)))
             (case ds of None \<Rightarrow> x | Some d \<Rightarrow> forward ops d x))"
  using assms
  by (auto simp add: Bottleneck_init_def nn_Conv3d_def nn_BatchNorm3d_def triple_def
        split: sum.splits)

theorem expansion_and_Bottleneck_conv3_witness:
  "\<exists>b. Bottleneck_init 64 64 Conv3DSimple 1 None = Inr b
     \<and> conv3 b =
        Sequential
          [Conv3d \<lparr>in_channels = 64, out_channels = 256, kernel_size = (1, 1, 1),
                   conv_stride = (1, 1, 1), conv_padding = (0, 0, 0),
                   conv_weight = Default_reset, conv_bias = None\<rparr>,
           BatchNorm3d \<lparr>num_features = 256, bn_weight = Constant 1, bn_bias = Constant 0\<rparr>]"
proof -
  obtain b where b: "Bottleneck_init 64 64 Conv3DSimple 1 None = Inr b"
    by (simp add: Bottleneck_init_def midplanes_formula_def py_floordiv_def)
  from expansion_and_Bottleneck_conv3 [OF b, of "shape_ops True" "Inr []"] b
  show ?thesis by simp
qed

text \<open>
  Claim C8. The stem is one convolution with kernel (7,7,7), stride (2,2,2), padding
  (3,3,3) and no bias from 1 to 64 channels, then a normalisation layer, then an
  activation, applied in this order.
\<close>

theorem BasicStem_structure:
  "stem_init BasicStem =
     Sequential
       [Conv3d \<lparr>in_channels = 1, out_channels = 64, kernel_size = (7, 7, 7),
                conv_stride = (2, 2, 2), conv_padding = (3, 3, 3),
                conv_weight = Default_reset, conv_bias = None\<rparr>,
        BatchNorm3d \<lparr>num_features = 64, bn_weight = Constant 1, bn_bias = Constant 0\<rparr>,
        ReLU True]
   \<and> forward ops (stem_init BasicStem) x =
       relu_op ops
         (batch_norm_op ops \<lparr>num_features = 64, bn_weight = Constant 1, bn_bias = Constant 0\<rparr>
           (conv3d_op ops
              \<lparr>in_channels = 1, out_channels = 64, kernel_size = (7, 7, 7),
                conv_stride = (2, 2, 2), conv_padding = (3, 3, 3),
                conv_weight = Default_reset, conv_bias = None\<rparr> x))"
  by (simp add: nn_Conv3d_def nn_BatchNorm3d_def)

subsection \<open>The entry points\<close>

lemma r3d_18_eq_spec: "r3d_18 pretrained progress no_kwargs = Inr spec_r3d_18"
  by (simp add: r3d_18_def video_resnet_def VideoResNet_call_def no_kwargs_def
      VideoResNet_init_def py_index_def make_layer_def BasicBlock_init_def
      midplanes_formula_def py_floordiv_def nn_Conv3d_def nn_BatchNorm3d_def triple_def
      spec_r3d_18_def spec_stage_def spec_basic_block_def spec_downsample_def spec_stem_def
      spec_conv_def spec_norm_def numeral_eq_Suc)

text \<open>
  Claim C9. \<open>pretrained\<close> and \<open>progress\<close> have no effect: with the same keyword
  arguments \<open>r3d_18\<close> returns the same result for every choice of the two,
  \<open>_video_resnet\<close> is the \<open>VideoResNet\<close> call on its keyword arguments, and without
  further keyword arguments the result is the freshly constructed and initialised
  network of the fixed configuration; nothing is loaded into it.
\<close>

theorem r3d_18_ignores_pretrained:
  "r3d_18 pretrained progress kwargs = r3d_18 pretrained' progress' kwargs
   \<and> video_resnet arch pretrained progress kwargs = VideoResNet_call kwargs
   \<and> r3d_18 pretrained progress no_kwargs =
       VideoResNet_init BasicBlock_cls [Conv3DSimple, Conv3DSimple, Conv3DSimple, Conv3DSimple]
         [2, 2, 2, 2] BasicStem 2 False"
  by (simp add: r3d_18_def video_resnet_def VideoResNet_call_def no_kwargs_def numeral_eq_Suc)

theorem r3d_18_ignores_pretrained_witness:
  "r3d_18 True False (no_kwargs\<lparr>kw_num_classes := Some 400\<rparr>)
     = r3d_18 False True (no_kwargs\<lparr>kw_num_classes := Some 400\<rparr>)
   \<and> video_resnet ''r3d_18'' True False (no_kwargs\<lparr>kw_num_classes := Some 400\<rparr>)
     = VideoResNet_call (no_kwargs\<lparr>kw_num_classes := Some 400\<rparr>)"
  using r3d_18_ignores_pretrained
    [of True False "no_kwargs\<lparr>kw_num_classes := Some 400\<rparr>" False True "''r3d_18''"]
  by simp

subsection \<open>Building stages\<close>

lemma make_layer_loop_blocks:
  assumes "make_layer_loop n blk inplanes planes cb = Inr bs"
  shows "length bs = n
       \<and> list_all (\<lambda>b. block_init blk inplanes planes cb 1 None = Inr b
                      \<and> self_stride b = 1 \<and> self_downsample b = None) bs"
  using assms
proof (induction n arbitrary: bs)
  case 0
  then show ?case by simp
next
  case (Suc n)
  then obtain b bs' where b: "block_init blk inplanes planes cb 1 None = Inr b"
    and bs': "make_layer_loop n blk inplanes planes cb = Inr bs'" and bs: "bs = b # bs'"
    by (auto simp add: bind_result_eq_Inr)
  from Suc.IH [OF bs'] b bs block_init_fields [OF b] show ?case by simp
qed

lemma make_layer_result:
  assumes "make_layer inplanes blk cb planes blocks stride = Inr (layer, inplanes')"
  shows "inplanes' = planes * expansion blk
       \<and> (\<exists>first rest. layer = Sequential (first # rest)
            \<and> block_init blk inplanes planes cb stride
                 (if stride \<noteq> 1 \<or> inplanes \<noteq> planes * expansion blk then
                    Some (Sequential
                      [nn_Conv3d inplanes (planes * expansion blk) (triple 1)
                         (get_downsample_stride cb stride) (triple 0) False,
                       nn_BatchNorm3d (planes * expansion blk)])
                  else None) = Inr first
            \<and> make_layer_loop (nat (blocks - 1)) blk (planes * expansion blk) planes cb = Inr rest)"
  using assms
  by (auto simp add: make_layer_def Let_def bind_result_eq_Inr)

lemma make_layer_stage_built:
  assumes "make_layer inplanes blk cb planes blocks stride = Inr (layer, inplanes')"
  shows "stage_built blk cb inplanes planes blocks stride layer"
proof -
  from make_layer_result [OF assms] obtain first rest where
    l: "layer = Sequential (first # rest)"
    and f: "block_init blk inplanes planes cb stride
                 (if stride \<noteq> 1 \<or> inplanes \<noteq> planes * expansion blk then
                    Some (Sequential
                      [nn_Conv3d inplanes (planes * expansion blk) (triple 1)
                         (get_downsample_stride cb stride) (triple 0) False,
                       nn_BatchNorm3d (planes * expansion blk)])
                  else None) = Inr first"
    and r: "make_layer_loop (nat (blocks - 1)) blk (planes * expansion blk) planes cb = Inr rest"
    by blast
  have "(if stride \<noteq> 1 \<or> inplanes \<noteq> planes * expansion blk then
           Some (Sequential
             [nn_Conv3d inplanes (planes * expansion blk) (triple 1)
                (get_downsample_stride cb stride) (triple 0) False,
              nn_BatchNorm3d (planes * expansion blk)])
         else None) = required_downsample blk cb inplanes planes stride"
    by (simp add: required_downsample_def nn_Conv3d_def nn_BatchNorm3d_def triple_def)
  with f have f': "block_init blk inplanes planes cb stride
      (required_downsample blk cb inplanes planes stride) = Inr first"
    by simp
  have "list_all (\<lambda>b. block_init blk (planes * expansion blk) planes cb 1 None = Inr b) rest"
    using make_layer_loop_blocks [OF r] by (simp add: list_all_iff)
  with f' make_layer_loop_blocks [OF r] l show ?thesis
    by (simp add: stage_built_def)
qed

lemma stage_built_first_downsample:
  assumes "stage_built blk cb inplanes planes blocks stride (Sequential (first # rest))"
  shows "self_downsample first = required_downsample blk cb inplanes planes stride"
  using assms block_init_fields [of blk inplanes planes cb stride _ first]
  by (simp add: stage_built_def)

lemma py_index_eq_Inr: "py_index xs i = Inr x \<longleftrightarrow> i < length xs \<and> xs ! i = x"
  by (simp add: py_index_def)

text \<open>
  Claim C2. Whenever \<open>_make_layer\<close> returns, the first block of the stage has a
  downsample path if and only if \<open>stride \<noteq> 1\<close> or the running channel count differs
  from \<open>planes * expansion\<close>. The path, when present, is a 1x1x1 convolution without
  bias from the running channel count to \<open>planes * expansion\<close>, with the stride the
  convolution builder maps the requested stride to, followed by a normalisation layer;
  \<open>Conv3DSimple\<close> maps \<open>stride\<close> to \<open>(stride, stride, stride)\<close>.
\<close>

theorem make_layer_downsample:
  assumes "make_layer inplanes blk cb planes blocks stride = Inr (layer, inplanes')"
  shows "\<exists>first rest. layer = Sequential (first # rest)
     \<and> (self_downsample first \<noteq> None \<longleftrightarrow> (stride \<noteq> 1 \<or> inplanes \<noteq> planes * expansion blk))
     \<and> (self_downsample first \<noteq> None \<longrightarrow>
          self_downsample first =
            Some (Sequential
              [Conv3d \<lparr>in_channels = inplanes, out_channels = planes * expansion blk,
                 kernel_size = (1, 1, 1), conv_stride = get_downsample_stride cb stride,
                 conv_padding = (0, 0, 0), conv_weight = Default_reset, conv_bias = None\<rparr>,
               BatchNorm3d \<lparr>num_features = planes * expansion blk, bn_weight = Constant 1,
                 bn_bias = Constant 0\<rparr>]))
     \<and> get_downsample_stride Conv3DSimple stride = (stride, stride, stride)"
proof -
  from make_layer_result [OF assms] obtain first rest where
    l: "layer = Sequential (first # rest)"
    and f: "block_init blk inplanes planes cb stride
                 (if stride \<noteq> 1 \<or> inplanes \<noteq> planes * expansion blk then
                    Some (Sequential
                      [nn_Conv3d inplanes (planes * expansion blk) (triple 1)
                         (get_downsample_stride cb stride) (triple 0) False,
                       nn_BatchNorm3d (planes * expansion blk)])
                  else None) = Inr first"
    by blast
  from block_init_fields [OF f] l show ?thesis
    by (auto simp add: nn_Conv3d_def nn_BatchNorm3d_def triple_def)
qed

theorem make_layer_downsample_witness:
  "\<exists>first rest second.
     make_layer 64 BasicBlock_cls Conv3DSimple 128 2 2 = Inr (Sequential (first # rest), 128)
     \<and> self_downsample first =
          Some (Sequential
            [Conv3d \<lparr>in_channels = 64, out_channels = 128, kernel_size = (1, 1, 1),
               conv_stride = (2, 2, 2), conv_padding = (0, 0, 0),
               conv_weight = Default_reset, conv_bias = None\<rparr>,
             BatchNorm3d \<lparr>num_features = 128, bn_weight = Constant 1, bn_bias = Constant 0\<rparr>])
     \<and> make_layer 64 BasicBlock_cls Conv3DSimple 64 2 1 = Inr (Sequential [second, second], 64)
     \<and> self_downsample second = None"
proof -
  obtain l1 where m1: "make_layer 64 BasicBlock_cls Conv3DSimple 128 2 2 = Inr (l1, 128)"
    by (simp add: make_layer_def BasicBlock_init_def midplanes_formula_def py_floordiv_def
        numeral_eq_Suc)
  obtain second where
    m2: "make_layer 64 BasicBlock_cls Conv3DSimple 64 2 1 = Inr (Sequential [second, second], 64)"
    by (simp add: make_layer_def BasicBlock_init_def midplanes_formula_def py_floordiv_def
        numeral_eq_Suc)
  from make_layer_downsample [OF m1] make_layer_downsample [OF m2] m1 m2 show ?thesis
    by auto
qed

text \<open>
  Claim C6. Whenever the constructor returns, it has built four stages in order with
  \<open>(planes, stride)\<close> = (64,1), (128,2), (192,2), (256,2), each from the channel count
  the previous one left, which is \<open>planes * expansion\<close>. In each stage the first block
  is the one constructed with the requested stride and the required downsample path
  (none when the stride is 1 and the channel count already is \<open>planes * expansion\<close>),
  and every remaining block is the one constructed with stride 1 and no downsample at
  the width \<open>planes * expansion\<close>; a stage has \<open>max 1 blocks\<close> blocks. For \<open>r3d_18\<close>
  the result is the network of the specification, with two blocks in every stage.
\<close>

theorem VideoResNet_stages:
  assumes "VideoResNet_init blk conv_makers layers stem num_classes zir = Inr net"
  shows "\<exists>l1 l2 l3 l4.
      make_layer 64 blk (conv_makers ! 0) 64 (layers ! 0) 1 = Inr (l1, 64 * expansion blk)
    \<and> make_layer (64 * expansion blk) blk (conv_makers ! 1) 128 (layers ! 1) 2
        = Inr (l2, 128 * expansion blk)
    \<and> make_layer (128 * expansion blk) blk (conv_makers ! 2) 192 (layers ! 2) 2
        = Inr (l3, 192 * expansion blk)
    \<and> make_layer (192 * expansion blk) blk (conv_makers ! 3) 256 (layers ! 3) 2
        = Inr (l4, 256 * expansion blk)
    \<and> stage_built blk (conv_makers ! 0) 64 64 (layers ! 0) 1 l1
    \<and> stage_built blk (conv_makers ! 1) (64 * expansion blk) 128 (layers ! 1) 2 l2
    \<and> stage_built blk (conv_makers ! 2) (128 * expansion blk) 192 (layers ! 2) 2 l3
    \<and> stage_built blk (conv_makers ! 3) (192 * expansion blk) 256 (layers ! 3) 2 l4
    \<and> (if zir then zero_init_residual_loop else Inr)
         (initialize_weights
            (VideoResNet (256 * expansion blk) (stem_init stem) l1 l2 l3 l4
               (AdaptiveAvgPool3d (1, 1, 1)))) = Inr net
    \<and> 4 \<le> length conv_makers \<and> 4 \<le> length layers
    \<and> r3d_18 pretrained progress no_kwargs = Inr spec_r3d_18"
proof -
  from assms obtain l1 i1 l2 i2 l3 i3 l4 i4 where
    m1: "make_layer 64 blk (conv_makers ! 0) 64 (layers ! 0) 1 = Inr (l1, i1)"
    and m2: "make_layer i1 blk (conv_makers ! 1) 128 (layers ! 1) 2 = Inr (l2, i2)"
    and m3: "make_layer i2 blk (conv_makers ! 2) 192 (layers ! 2) 2 = Inr (l3, i3)"
    and m4: "make_layer i3 blk (conv_makers ! 3) 256 (layers ! 3) 2 = Inr (l4, i4)"
    and len: "3 < length conv_makers" "3 < length layers"
    and net: "(if zir then zero_init_residual_loop else Inr)
         (initialize_weights
            (VideoResNet i4 (stem_init stem) l1 l2 l3 l4 (AdaptiveAvgPool3d (1, 1, 1)))) = Inr net"
    by (auto simp add: VideoResNet_init_def Let_def bind_result_eq_Inr py_index_eq_Inr
        split: if_splits)
  have i: "i1 = 64 * expansion blk" "i2 = 128 * expansion blk" "i3 = 192 * expansion blk"
    "i4 = 256 * expansion blk"
    using make_layer_result [OF m1] make_layer_result [OF m2] make_layer_result [OF m3]
      make_layer_result [OF m4] by simp_all
  have "stage_built blk (conv_makers ! 0) 64 64 (layers ! 0) 1 l1"
    and "stage_built blk (conv_makers ! 1) i1 128 (layers ! 1) 2 l2"
    and "stage_built blk (conv_makers ! 2) i2 192 (layers ! 2) 2 l3"
    and "stage_built blk (conv_makers ! 3) i3 256 (layers ! 3) 2 l4"
    using m1 m2 m3 m4 by (simp_all add: make_layer_stage_built)
  with m1 m2 m3 m4 net len i r3d_18_eq_spec [of pretrained progress] show ?thesis
    by (intro exI [of _ l1] exI [of _ l2] exI [of _ l3] exI [of _ l4]) simp
qed

theorem VideoResNet_stages_witness:
  "VideoResNet_init BasicBlock_cls [Conv3DSimple, Conv3DSimple, Conv3DSimple, Conv3DSimple]
      [2, 2, 2, 2] BasicStem 2 False = Inr spec_r3d_18
   \<and> (\<exists>l1 l2 l3 l4.
        make_layer 64 BasicBlock_cls Conv3DSimple 64 2 1 = Inr (l1, 64)
      \<and> make_layer 64 BasicBlock_cls Conv3DSimple 128 2 2 = Inr (l2, 128)
      \<and> make_layer 128 BasicBlock_cls Conv3DSimple 192 2 2 = Inr (l3, 192)
      \<and> make_layer 192 BasicBlock_cls Conv3DSimple 256 2 2 = Inr (l4, 256)
      \<and> stage_built BasicBlock_cls Conv3DSimple 64 64 2 1 l1
      \<and> stage_built BasicBlock_cls Conv3DSimple 64 128 2 2 l2
      \<and> stage_built BasicBlock_cls Conv3DSimple 128 192 2 2 l3
      \<and> stage_built BasicBlock_cls Conv3DSimple 192 256 2 2 l4
      \<and> initialize_weights
           (VideoResNet 256 (stem_init BasicStem) l1 l2 l3 l4 (AdaptiveAvgPool3d (1, 1, 1)))
          = spec_r3d_18)"
proof -
  have v: "VideoResNet_init BasicBlock_cls
      [Conv3DSimple, Conv3DSimple, Conv3DSimple, Conv3DSimple] [2, 2, 2, 2] BasicStem 2 False
      = Inr spec_r3d_18"
    using r3d_18_eq_spec [of False True]
    by (simp add: r3d_18_def video_resnet_def VideoResNet_call_def no_kwargs_def numeral_eq_Suc)
  from VideoResNet_stages [OF v, of False True] v show ?thesis
    by (simp del: initialize_weights.simps stem_init.simps) blast
qed

subsection \<open>Weight initialisation\<close>

lemma initialize_weights_batchnorm:
  "BatchNorm3d b \<in> set (modules (initialize_weights m)) \<Longrightarrow>
     bn_weight b = Constant 1 \<and> bn_bias b = Constant 0"
  by (induction m) (auto split: option.splits)

lemma zero_init_residual_loop_Bottleneck:
  "zero_init_residual_loop (Bottleneck c1 c2 c3 r ds s) = Inl AttributeError"
  by (cases ds) (simp_all add: getattr_module_def)

text \<open>
  Claim C3. After \<open>_initialize_weights\<close> every normalisation layer has scale 1 and
  shift 0 (the lemma on \<open>initialize_weights\<close> above). The second half of the claim
  fails on the code: the loop for \<open>zero_init_residual\<close> reads \<open>m.bn3\<close>, and a
  \<open>Bottleneck\<close> of this file has no such attribute (its last normalisation layer is
  the second element of \<open>conv3\<close>), so constructing a Bottleneck network with the
  option enabled raises \<open>AttributeError\<close> instead of zeroing that scale.
\<close>

theorem zero_init_residual_Bottleneck_raises:
  "VideoResNet_init Bottleneck_cls [Conv3DSimple, Conv3DSimple, Conv3DSimple, Conv3DSimple]
     [1, 1, 1, 1] BasicStem 2 True = Inl AttributeError"
  by (simp add: VideoResNet_init_def py_index_def make_layer_def Bottleneck_init_def
      midplanes_formula_def py_floordiv_def nn_Conv3d_def nn_BatchNorm3d_def triple_def
      getattr_module_def)

subsection \<open>Shapes through the network\<close>

lemma halve_pos: "0 < d \<Longrightarrow> 0 < halve d"
  by (simp add: halve_def)

lemma conv_extent_k7_s2_p3: "0 < d \<Longrightarrow> conv_extent d 7 2 3 = Inr (halve d)"
  by (simp add: conv_extent_def halve_def)

lemma conv_extent_k3_s2_p1: "0 < d \<Longrightarrow> conv_extent d 3 2 1 = Inr (halve d)"
  by (simp add: conv_extent_def halve_def)

lemma conv_extent_k1_s2_p0: "0 < d \<Longrightarrow> conv_extent d 1 2 0 = Inr (halve d)"
  by (simp add: conv_extent_def halve_def)

lemma conv_extent_k3_s1_p1: "0 < d \<Longrightarrow> conv_extent d 3 1 1 = Inr d"
  by (simp add: conv_extent_def)

lemma broadcasts_to_refl: "broadcasts_to sh sh"
  by (induction sh) simp_all

lemma shape_iadd_same: "shape_iadd sh sh = Inr sh"
  by (simp add: shape_iadd_def broadcasts_to_refl)

lemma forward_spec_stem:
  assumes "0 < d" "0 < h" "0 < w"
    and "\<not> (training \<and> n * halve d * halve h * halve w = 1)"
  shows "forward (shape_ops training) spec_stem (Inr [n, 1, d, h, w]) =
           Inr [n, 64, halve d, halve h, halve w]"
  using assms
  by (simp add: spec_stem_def spec_conv_def spec_norm_def shape_ops_def conv_extents_def
      conv_extent_k7_s2_p3)

lemma forward_spec_basic_block_keep:
  assumes "0 < d" "0 < h" "0 < w" and "c = int ch"
    and "\<not> (training \<and> n * d * h * w = 1)"
  shows "forward (shape_ops training) (spec_basic_block c c 1 None) (Inr [n, ch, d, h, w]) =
           Inr [n, ch, d, h, w]"
  using assms
  by (simp add: spec_basic_block_def spec_conv_def spec_norm_def shape_ops_def conv_extents_def
      conv_extent_k3_s1_p1 shape_iadd_same)

lemma forward_spec_basic_block_down:
  assumes "0 < d" "0 < h" "0 < w" and "cin = int ch" and "0 \<le> cout"
    and "\<not> (training \<and> n * halve d * halve h * halve w = 1)"
  shows "forward (shape_ops training)
           (spec_basic_block cin cout 2 (Some (spec_downsample cin cout 2)))
           (Inr [n, ch, d, h, w]) =
         Inr [n, nat cout, halve d, halve h, halve w]"
  using assms
  by (simp add: spec_basic_block_def spec_downsample_def spec_conv_def spec_norm_def
      shape_ops_def conv_extents_def conv_extent_k3_s1_p1 conv_extent_k3_s2_p1
      conv_extent_k1_s2_p0 halve_pos shape_iadd_same)

lemma forward_spec_stage_keep:
  assumes "0 < d" "0 < h" "0 < w" and "c = int ch"
    and "\<not> (training \<and> n * d * h * w = 1)"
  shows "forward (shape_ops training) (spec_stage c c 1) (Inr [n, ch, d, h, w]) =
           Inr [n, ch, d, h, w]"
  using assms by (simp add: spec_stage_def forward_spec_basic_block_keep)

lemma forward_spec_stage_down:
  assumes "0 < d" "0 < h" "0 < w" and "cin = int ch" and "0 \<le> cout"
    and "\<not> (training \<and> n * halve d * halve h * halve w = 1)"
  shows "forward (shape_ops training) (spec_stage cin cout 2) (Inr [n, ch, d, h, w]) =
         Inr [n, nat cout, halve d, halve h, halve w]"
  using assms
  by (simp add: spec_stage_def forward_spec_basic_block_down forward_spec_basic_block_keep
      halve_pos)

lemma product_not_one:
  fixes n a b c :: nat
  assumes "0 < n" "0 < a" "0 < b" "0 < c" and "2 \<le> n \<or> 2 \<le> a \<or> 2 \<le> b \<or> 2 \<le> c"
  shows "n * a * b * c \<noteq> 1"
  using assms by auto

lemma halve_ge2: "3 \<le> d \<Longrightarrow> 2 \<le> halve d"
  by (simp add: halve_def)

lemma halve_ge3: "5 \<le> d \<Longrightarrow> 3 \<le> halve d"
  by (simp add: halve_def)

lemma halve_ge5: "9 \<le> d \<Longrightarrow> 5 \<le> halve d"
  by (simp add: halve_def)

lemma halve_ge9: "17 \<le> d \<Longrightarrow> 9 \<le> halve d"
  by (simp add: halve_def)

text \<open>Exceptions pass through every module unchanged.\<close>

lemma fold_forward_Inl:
  assumes "\<And>m e. m \<in> set ms \<Longrightarrow> forward (shape_ops training) m (Inl e) = Inl e"
  shows "fold (forward (shape_ops training)) ms (Inl e) = Inl e"
  using assms by (induction ms) simp_all

lemma forward_shape_Inl: "forward (shape_ops training) m (Inl e) = Inl e"
proof (induction m arbitrary: e)
  case (Sequential ms)
  then show ?case by (simp add: fold_forward_Inl)
next
  case (BasicBlock c1 c2 r ds s)
  then show ?case by (simp add: shape_ops_def)
next
  case (Bottleneck c1 c2 c3 r ds s)
  then show ?case by (simp add: shape_ops_def)
qed (simp_all add: shape_ops_def)

lemma forward_spec_stem_reject:
  assumes "0 < d" "0 < h" "0 < w" and "n * halve d * halve h * halve w = 1"
  shows "forward (shape_ops True) spec_stem (Inr [n, 1, d, h, w]) = Inl ValueError"
  using assms
  by (simp add: spec_stem_def spec_conv_def spec_norm_def shape_ops_def conv_extents_def
      conv_extent_k7_s2_p3)

lemma forward_spec_stage_down_reject:
  assumes "0 < d" "0 < h" "0 < w" and "cin = int ch" and "0 \<le> cout"
    and "n * halve d * halve h * halve w = 1"
  shows "forward (shape_ops True) (spec_stage cin cout 2) (Inr [n, ch, d, h, w]) = Inl ValueError"
proof -
  have "forward (shape_ops True)
           (spec_basic_block cin cout 2 (Some (spec_downsample cin cout 2)))
           (Inr [n, ch, d, h, w]) = Inl ValueError"
    using assms
    by (simp add: spec_basic_block_def spec_downsample_def spec_conv_def spec_norm_def
      shape_ops_def conv_extents_def conv_extent_k3_s2_p1)
  then show ?thesis
    by (simp add: spec_stage_def forward_shape_Inl)
qed


lemma halve_le_one: "d \<le> 2 \<Longrightarrow> 0 < d \<Longrightarrow> halve d = 1"
  by (simp add: halve_def)

lemma halve_le2: "d \<le> 4 \<Longrightarrow> halve d \<le> 2"
  by (simp add: halve_def)

lemma halve_le4: "d \<le> 8 \<Longrightarrow> halve d \<le> 4"
  by (simp add: halve_def)

lemma halve_le8: "d \<le> 16 \<Longrightarrow> halve d \<le> 8"
  by (simp add: halve_def)

lemma halve4_small: "0 < d \<Longrightarrow> d \<le> 16 \<Longrightarrow> halve (halve (halve (halve d))) = 1"
  by (simp add: halve_le_one halve_le2 halve_le4 halve_le8 halve_pos)

lemma forward_spec_trunk_shape:
  assumes N: "0 < N" and D: "0 < D" and H: "0 < H" and W: "0 < W"
    and T: "training \<longrightarrow> 2 \<le> N \<or> 17 \<le> D \<or> 17 \<le> H \<or> 17 \<le> W"
  shows "forward (shape_ops training) (spec_stage 192 256 2)
           (forward (shape_ops training) (spec_stage 128 192 2)
             (forward (shape_ops training) (spec_stage 64 128 2)
               (forward (shape_ops training) (spec_stage 64 64 1)
                 (forward (shape_ops training) spec_stem (Inr [N, 1, D, H, W]))))) =
         Inr [N, 256, halve (halve (halve (halve D))), halve (halve (halve (halve H))),
              halve (halve (halve (halve W)))]"
proof -
  define d1 h1 w1 where "d1 = halve D" and "h1 = halve H" and "w1 = halve W"
  define d2 h2 w2 where "d2 = halve d1" and "h2 = halve h1" and "w2 = halve w1"
  define d3 h3 w3 where "d3 = halve d2" and "h3 = halve h2" and "w3 = halve w2"
  define d4 h4 w4 where "d4 = halve d3" and "h4 = halve h3" and "w4 = halve w3"
  note defs = d1_def h1_def w1_def d2_def h2_def w2_def d3_def h3_def w3_def
    d4_def h4_def w4_def
  have pos1: "0 < d1" "0 < h1" "0 < w1"
    using D H W by (simp_all add: defs halve_pos)
  have pos2: "0 < d2" "0 < h2" "0 < w2"
    using pos1 by (simp_all add: defs halve_pos)
  have pos3: "0 < d3" "0 < h3" "0 < w3"
    using pos2 by (simp_all add: defs halve_pos)
  have pos4: "0 < d4" "0 < h4" "0 < w4"
    using pos3 by (simp_all add: defs halve_pos)
  have big: "training \<Longrightarrow>
      (2 \<le> N \<or> 9 \<le> d1 \<or> 9 \<le> h1 \<or> 9 \<le> w1) \<and> (2 \<le> N \<or> 5 \<le> d2 \<or> 5 \<le> h2 \<or> 5 \<le> w2)
    \<and> (2 \<le> N \<or> 3 \<le> d3 \<or> 3 \<le> h3 \<or> 3 \<le> w3) \<and> (2 \<le> N \<or> 2 \<le> d4 \<or> 2 \<le> h4 \<or> 2 \<le> w4)"
    using T unfolding defs
    by (auto dest: halve_ge9 halve_ge5 halve_ge3 halve_ge2)
  have bn1: "\<not> (training \<and> N * d1 * h1 * w1 = 1)"
    using big pos1 N by (auto dest!: product_not_one [of N d1 h1 w1])
  have bn2: "\<not> (training \<and> N * d2 * h2 * w2 = 1)"
    using big pos2 N by (auto dest!: product_not_one [of N d2 h2 w2])
  have bn3: "\<not> (training \<and> N * d3 * h3 * w3 = 1)"
    using big pos3 N by (auto dest!: product_not_one [of N d3 h3 w3])
  have bn4: "\<not> (training \<and> N * d4 * h4 * w4 = 1)"
    using big pos4 N by (auto dest!: product_not_one [of N d4 h4 w4])
  have s0: "forward (shape_ops training) spec_stem (Inr [N, 1, D, H, W]) = Inr [N, 64, d1, h1, w1]"
    using D H W bn1 unfolding defs by (rule forward_spec_stem)
  have s1: "forward (shape_ops training) (spec_stage 64 64 1) (Inr [N, 64, d1, h1, w1]) =
      Inr [N, 64, d1, h1, w1]"
    using pos1 _ bn1 by (rule forward_spec_stage_keep) simp
  have s2: "forward (shape_ops training) (spec_stage 64 128 2) (Inr [N, 64, d1, h1, w1]) =
      Inr [N, 128, d2, h2, w2]"
    using forward_spec_stage_down [of d1 h1 w1 64 64 128 training N] pos1 bn2
    by (simp add: defs)
  have s3: "forward (shape_ops training) (spec_stage 128 192 2) (Inr [N, 128, d2, h2, w2]) =
      Inr [N, 192, d3, h3, w3]"
    using forward_spec_stage_down [of d2 h2 w2 128 128 192 training N] pos2 bn3
    by (simp add: defs)
  have s4: "forward (shape_ops training) (spec_stage 192 256 2) (Inr [N, 192, d3, h3, w3]) =
      Inr [N, 256, d4, h4, w4]"
    using forward_spec_stage_down [of d3 h3 w3 192 192 256 training N] pos3 bn4
    by (simp add: defs)
  show ?thesis
    unfolding s0 s1 s2 s3 s4 by (simp add: defs)
qed

lemma forward_spec_r3d_18_shape:
  assumes N: "0 < N" and D: "0 < D" and H: "0 < H" and W: "0 < W"
    and T: "training \<longrightarrow> 2 \<le> N \<or> 17 \<le> D \<or> 17 \<le> H \<or> 17 \<le> W"
  shows "forward (shape_ops training) spec_r3d_18 (Inr [N, 1, D, H, W]) = Inr [N, 256]"
proof -
  have "flatten_op (shape_ops training) 1
      (adaptive_avg_pool3d_op (shape_ops training) (1, 1, 1)
         (Inr [N, 256, halve (halve (halve (halve D))), halve (halve (halve (halve H))),
               halve (halve (halve (halve W)))])) =
      Inr [N, 256]"
    using D H W by (simp add: shape_ops_def shape_flatten_def halve_pos)
  then show ?thesis
    unfolding spec_r3d_18_def forward.simps Let_def forward_spec_trunk_shape [OF assms] .
qed

lemma forward_spec_trunk_reject:
  assumes D: "0 < D" "D \<le> 16" and H: "0 < H" "H \<le> 16" and W: "0 < W" "W \<le> 16"
  shows "forward (shape_ops True) (spec_stage 192 256 2)
           (forward (shape_ops True) (spec_stage 128 192 2)
             (forward (shape_ops True) (spec_stage 64 128 2)
               (forward (shape_ops True) (spec_stage 64 64 1)
                 (forward (shape_ops True) spec_stem (Inr [1, 1, D, H, W]))))) =
         Inl ValueError"
proof -
  define d1 h1 w1 where "d1 = halve D" and "h1 = halve H" and "w1 = halve W"
  define d2 h2 w2 where "d2 = halve d1" and "h2 = halve h1" and "w2 = halve w1"
  define d3 h3 w3 where "d3 = halve d2" and "h3 = halve h2" and "w3 = halve w2"
  note defs = d1_def h1_def w1_def d2_def h2_def w2_def d3_def h3_def w3_def
  have pos1: "0 < d1" "0 < h1" "0 < w1"
    using D H W by (simp_all add: defs halve_pos)
  have pos2: "0 < d2" "0 < h2" "0 < w2"
    using pos1 by (simp_all add: defs halve_pos)
  have pos3: "0 < d3" "0 < h3" "0 < w3"
    using pos2 by (simp_all add: defs halve_pos)
  have last: "1 * halve d3 * halve h3 * halve w3 = (1::nat)"
    using D H W by (simp add: defs halve4_small)
  show ?thesis
  proof (cases "1 * d1 * h1 * w1 = 1")
    case True
    then have "forward (shape_ops True) spec_stem (Inr [1, 1, D, H, W]) = Inl ValueError"
      using D H W unfolding defs by (intro forward_spec_stem_reject) simp_all
    then show ?thesis by (simp add: forward_shape_Inl)
  next
    case c1: False
    then have s0: "forward (shape_ops True) spec_stem (Inr [1, 1, D, H, W]) =
        Inr [1, 64, d1, h1, w1]"
      using D H W forward_spec_stem [of D H W True 1] by (simp add: defs)
    have s1: "forward (shape_ops True) (spec_stage 64 64 1) (Inr [1, 64, d1, h1, w1]) =
        Inr [1, 64, d1, h1, w1]"
      using pos1 c1 forward_spec_stage_keep [of d1 h1 w1 64 64 True 1] by simp
    show ?thesis
    proof (cases "1 * d2 * h2 * w2 = 1")
      case True
      then have "forward (shape_ops True) (spec_stage 64 128 2) (Inr [1, 64, d1, h1, w1]) =
          Inl ValueError"
        using pos1 forward_spec_stage_down_reject [of d1 h1 w1 64 64 128 1] by (simp add: defs)
      then show ?thesis unfolding s0 s1 by (simp add: forward_shape_Inl)
    next
      case c2: False
      then have s2: "forward (shape_ops True) (spec_stage 64 128 2) (Inr [1, 64, d1, h1, w1]) =
          Inr [1, 128, d2, h2, w2]"
        using pos1 forward_spec_stage_down [of d1 h1 w1 64 64 128 True 1] by (simp add: defs)
      show ?thesis
      proof (cases "1 * d3 * h3 * w3 = 1")
        case True
        then have "forward (shape_ops True) (spec_stage 128 192 2) (Inr [1, 128, d2, h2, w2]) =
            Inl ValueError"
          using pos2 forward_spec_stage_down_reject [of d2 h2 w2 128 128 192 1]
          by (simp add: defs)
        then show ?thesis unfolding s0 s1 s2 by (simp add: forward_shape_Inl)
      next
        case c3: False
        then have s3: "forward (shape_ops True) (spec_stage 128 192 2)
            (Inr [1, 128, d2, h2, w2]) = Inr [1, 192, d3, h3, w3]"
          using pos2 forward_spec_stage_down [of d2 h2 w2 128 128 192 True 1]
          by (simp add: defs)
        have "forward (shape_ops True) (spec_stage 192 256 2) (Inr [1, 192, d3, h3, w3]) =
            Inl ValueError"
          using pos3 last forward_spec_stage_down_reject [of d3 h3 w3 192 192 256 1] by simp
        then show ?thesis unfolding s0 s1 s2 s3 .
      qed
    qed
  qed
qed


lemma forward_spec_r3d_18_reject:
  assumes "0 < D" "D \<le> 16" and "0 < H" "H \<le> 16" and "0 < W" "W \<le> 16"
  shows "forward (shape_ops True) spec_r3d_18 (Inr [1, 1, D, H, W]) = Inl ValueError"
  unfolding spec_r3d_18_def forward.simps Let_def forward_spec_trunk_reject [OF assms]
  by (simp add: shape_ops_def)

text \<open>
  A freshly built network is in training mode and rejects a single sample of extent 16,
  whose last feature map has one value per channel; in evaluation mode even a single
  voxel passes.
\<close>

lemma forward_training_single_value:
  "forward (shape_ops True) spec_r3d_18 (Inr [1, 1, 16, 16, 16]) = Inl ValueError"
  using forward_spec_r3d_18_reject [of 16 16 16] by simp

lemma forward_eval_single_voxel:
  "forward (shape_ops False) spec_r3d_18 (Inr [1, 1, 1, 1, 1]) = Inr [1, 256]"
  using forward_spec_r3d_18_shape [of 1 1 1 1 False] by simp

theorem r3d_18_forward_training_counterexample:
  "r3d_18 False True no_kwargs = Inr spec_r3d_18
   \<and> forward (shape_ops True) spec_r3d_18 (Inr [1, 1, 16, 16, 16]) = Inl ValueError"
  using r3d_18_eq_spec [of False True] forward_training_single_value by simp

text \<open>
  Claim C1, with the condition on the mode made explicit. \<open>r3d_18()\<close> returns a network whose forward pass is the
  composition stem, layer1, layer2, layer3, layer4, adaptive average pooling to
  (1,1,1), flatten from dimension 1, and nothing after it. On an input of shape
  \<open>(N, 1, D, H, W)\<close> with \<open>N \<ge> 1\<close> and positive extents, the four stride-2
  reductions (stem, layer2, layer3, layer4) leave every extent at its half, rounded up,
  four times over, so no positive extent collapses; the result has shape \<open>(N, 256)\<close>
  exactly when the network is in evaluation mode, or \<open>N \<ge> 2\<close>, or one of the extents
  is at least 17. In training mode, the mode of a freshly built network, a single sample
  with all extents at most 16 is rejected by batch normalisation, which needs more than
  one value per channel.
\<close>

theorem r3d_18_forward:
  assumes "1 \<le> N" and "1 \<le> D" and "1 \<le> H" and "1 \<le> W"
  shows "\<exists>net. r3d_18 pretrained progress no_kwargs = Inr net
     \<and> (\<forall>(ops :: 't tensor_ops) x.
          forward ops net x =
            flatten_op ops 1
              (adaptive_avg_pool3d_op ops (1, 1, 1)
                (forward ops (layer4 net)
                  (forward ops (layer3 net)
                    (forward ops (layer2 net)
                      (forward ops (layer1 net)
                        (forward ops (self_stem net) x)))))))
     \<and> (forward (shape_ops training) net (Inr [N, 1, D, H, W]) = Inr [N, 256]
          \<longleftrightarrow> (training \<longrightarrow> 2 \<le> N \<or> 17 \<le> D \<or> 17 \<le> H \<or> 17 \<le> W))
     \<and> forward (shape_ops False) (layer4 net)
          (forward (shape_ops False) (layer3 net)
            (forward (shape_ops False) (layer2 net)
              (forward (shape_ops False) (layer1 net)
                (forward (shape_ops False) (self_stem net) (Inr [N, 1, D, H, W])))))
         = Inr [N, 256, halve (halve (halve (halve D))), halve (halve (halve (halve H))),
                halve (halve (halve (halve W)))]"
proof -
  have comp: "\<forall>(ops :: 't tensor_ops) x.
          forward ops spec_r3d_18 x =
            flatten_op ops 1
              (adaptive_avg_pool3d_op ops (1, 1, 1)
                (forward ops (layer4 spec_r3d_18)
                  (forward ops (layer3 spec_r3d_18)
                    (forward ops (layer2 spec_r3d_18)
                      (forward ops (layer1 spec_r3d_18)
                        (forward ops (self_stem spec_r3d_18) x))))))"
    by (simp add: spec_r3d_18_def)
  have pos: "0 < N" "0 < D" "0 < H" "0 < W"
    using assms by simp_all
  have ok: "forward (shape_ops training) spec_r3d_18 (Inr [N, 1, D, H, W]) = Inr [N, 256]"
    if "training \<longrightarrow> 2 \<le> N \<or> 17 \<le> D \<or> 17 \<le> H \<or> 17 \<le> W"
    using pos that by (rule forward_spec_r3d_18_shape)
  have ko: "forward (shape_ops training) spec_r3d_18 (Inr [N, 1, D, H, W]) \<noteq> Inr [N, 256]"
    if "\<not> (training \<longrightarrow> 2 \<le> N \<or> 17 \<le> D \<or> 17 \<le> H \<or> 17 \<le> W)"
  proof -
    from that assms have "training" "N = 1" "D \<le> 16" "H \<le> 16" "W \<le> 16"
      by auto
    with pos forward_spec_r3d_18_reject [of D H W] show ?thesis
      by simp
  qed
  have iff: "forward (shape_ops training) spec_r3d_18 (Inr [N, 1, D, H, W]) = Inr [N, 256]
          \<longleftrightarrow> (training \<longrightarrow> 2 \<le> N \<or> 17 \<le> D \<or> 17 \<le> H \<or> 17 \<le> W)"
    using ok ko by blast
  have trunk: "forward (shape_ops False) (layer4 spec_r3d_18)
          (forward (shape_ops False) (layer3 spec_r3d_18)
            (forward (shape_ops False) (layer2 spec_r3d_18)
              (forward (shape_ops False) (layer1 spec_r3d_18)
                (forward (shape_ops False) (self_stem spec_r3d_18) (Inr [N, 1, D, H, W])))))
         = Inr [N, 256, halve (halve (halve (halve D))), halve (halve (halve (halve H))),
                halve (halve (halve (halve W)))]"
    using forward_spec_trunk_shape [of N D H W False] pos
    by (simp add: spec_r3d_18_def)
  from comp iff trunk r3d_18_eq_spec [of pretrained progress] show ?thesis
    by blast
qed

theorem r3d_18_forward_witness:
  "\<exists>net. r3d_18 False True no_kwargs = Inr net
     \<and> forward (shape_ops True) net (Inr [2, 1, 32, 32, 32]) = Inr [2, 256]
     \<and> forward (shape_ops True) net (Inr [1, 1, 182, 218, 182]) = Inr [1, 256]"
proof -
  have a: "\<exists>net. r3d_18 False True no_kwargs = Inr net
     \<and> forward (shape_ops True) net (Inr [2, 1, 32, 32, 32]) = Inr [2, 256]"
    using r3d_18_forward [where ?'t = unit, of 2 32 32 32 False True True] by auto
  have b: "\<exists>net. r3d_18 False True no_kwargs = Inr net
     \<and> forward (shape_ops True) net (Inr [1, 1, 182, 218, 182]) = Inr [1, 256]"
    using r3d_18_forward [where ?'t = unit, of 1 182 218 182 False True True] by auto
  from a b show ?thesis by auto
qed

end
